theory Spec2Isabelle
  imports Complex_Main
begin

section \<open>Dritchwear: wallet history, payment bridge and order workflow\<close>

text \<open>
  The development follows three source files of the application:
  \<^item> \<^verbatim>\<open>src/app/(customer)/wallet-history.tsx\<close>: the totals of the wallet-history screen;
  \<^item> \<^verbatim>\<open>src/components/PaystackPayment.tsx\<close>: the script of the checkout page and the
    host's message handler;
  \<^item> \<^verbatim>\<open>src/unnamed/part_001\<close> (the order-details modal): \<^verbatim>\<open>handleStatusUpdate\<close>,
    \<^verbatim>\<open>handleRefund\<close>, \<^verbatim>\<open>handleSendInvoice\<close> and the render gates around them.

  The amounts of the wallet and of the orders are modelled as \<^typ>\<open>real\<close>: their sums are
  exact, and rounding, \<^verbatim>\<open>NaN\<close> and the infinities are outside the model there. The
  amount of the payment bridge, whose product with 100 is what the provider charges, is
  modelled as a binary floating-point number with the rounding written out. Record
  fields carry the source's field name behind a short tag of their record, since the
  interfaces of the source share names such as \<^verbatim>\<open>id\<close>, \<^verbatim>\<open>status\<close> and \<^verbatim>\<open>amount\<close>.
\<close>

subsection \<open>Wallet history: the two totals\<close>

text \<open>
  \<^verbatim>\<open>interface Transaction { id; type: 'credit' | 'debit'; amount; description; status;
  created_at }\<close>
\<close>

datatype txn_kind = credit | debit

record Transaction =
  txn_id :: string
  txn_type :: txn_kind
  txn_amount :: real
  txn_description :: string
  txn_status :: string
  txn_created_at :: string

text \<open>
  \<^verbatim>\<open>transactions.filter(t => t.type === 'credit' && t.status === 'completed')
              .reduce((sum, t) => sum + t.amount, 0)\<close>
  and the same with \<^verbatim>\<open>'debit'\<close>. \<^verbatim>\<open>reduce\<close> with an initial value is a left fold.
\<close>

definition totalCredits :: "Transaction list \<Rightarrow> real" where
  "totalCredits transactions =
     foldl (\<lambda>sum t. sum + txn_amount t) 0
       (filter (\<lambda>t. txn_type t = credit \<and> txn_status t = ''completed'') transactions)"

definition totalDebits :: "Transaction list \<Rightarrow> real" where
  "totalDebits transactions =
     foldl (\<lambda>sum t. sum + txn_amount t) 0
       (filter (\<lambda>t. txn_type t = debit \<and> txn_status t = ''completed'') transactions)"

text \<open>What one transaction adds to each total, written from the claim's words.\<close>

definition credit_share :: "Transaction \<Rightarrow> real" where
  "credit_share t =
     (if txn_type t = credit \<and> txn_status t = ''completed'' then txn_amount t else 0)"

definition debit_share :: "Transaction \<Rightarrow> real" where
  "debit_share t =
     (if txn_type t = debit \<and> txn_status t = ''completed'' then txn_amount t else 0)"

subsection \<open>Payment bridge: the checkout page of \<^verbatim>\<open>PaystackPayment.tsx\<close>\<close>

text \<open>
  The component renders a page inside a web view. The page's script keeps two variables,
  \<^verbatim>\<open>paymentInProgress\<close> and \<^verbatim>\<open>retryCount\<close>, and talks to the host through
  \<^verbatim>\<open>postMessage\<close>. The model is a state record and one function per function of the
  script; the things that happen to the page (clicks, the provider's callbacks, timers)
  are events, and a presentation is a list of events run from the initial page.
  The provider's response object is kept as a string.
\<close>

text \<open>
  A finite JavaScript \<^verbatim>\<open>number\<close>: an IEEE double, the integer \<open>significand\<close> times two to
  the \<open>exponent\<close>, the significand within 53 bits. The exponent is not bounded here, so
  overflow to infinity and the subnormal range are outside the model, as are \<^verbatim>\<open>NaN\<close> and
  the infinities themselves.
\<close>

record double =
  significand :: int
  exponent :: int


text \<open>The number of binary digits of a natural number.\<close>

fun width :: "nat \<Rightarrow> nat" where
  "width n = (if n = 0 then 0 else Suc (width (n div 2)))"

declare width.simps [simp del]

text \<open>
  \<open>m\<close> divided by two to the \<open>k\<close>, rounded to the nearest integer, a tie going to the
  even one: the rounding of IEEE arithmetic in its default mode.
\<close>

definition round_even :: "int \<Rightarrow> nat \<Rightarrow> int" where
  "round_even m k =
     (let q = m div 2 ^ k; r = m mod 2 ^ k
      in if 2 ^ k < 2 * r \<or> (2 * r = 2 ^ k \<and> odd q) then q + 1 else q)"

text \<open>The product of two doubles: the exact product, cut to 53 bits by that rounding.\<close>

definition double_times :: "double \<Rightarrow> double \<Rightarrow> double" where
  "double_times a b =
     (let m = significand a * significand b;
          k = width (nat \<bar>m\<bar>) - 53
      in \<lparr>significand = round_even m k, exponent = exponent a + exponent b + int k\<rparr>)"

record PaystackPaymentProps =
  email :: string
  amount :: double
  publicKey :: string
  customerName :: string

text \<open>\<^verbatim>\<open>const amountInKobo = amount * 100;\<close>\<close>

definition amountInKobo :: "PaystackPaymentProps \<Rightarrow> double" where
  "amountInKobo props = double_times (amount props) \<lparr>significand = 100, exponent = 0\<rparr>"

text \<open>
  The template pastes \<^verbatim>\<open>publicKey\<close> and \<^verbatim>\<open>email\<close> into the script between single quotes
  and \<^verbatim>\<open>customerName\<close> between double quotes. A pasted string that holds its closing
  quote, a backslash or a line break changes the text of the script. In the plain case
  (an apostrophe in the e-mail address) the script no longer parses: the page then
  defines none of its functions and registers no listener, and nothing that happens to
  it has an effect. The model takes this for every such string; a string crafted so that
  the changed script still parses is outside the model.
\<close>

definition pasted_ok :: "char \<Rightarrow> string \<Rightarrow> bool" where
  "pasted_ok quote s =
     list_all (\<lambda>c. c \<noteq> quote \<and> c \<noteq> CHR 0x5C \<and> c \<noteq> CHR 0x0A \<and> c \<noteq> CHR 0x0D) s"

definition script_intact :: "PaystackPaymentProps \<Rightarrow> bool" where
  "script_intact props =
     (pasted_ok (CHR 0x27) (publicKey props) \<and> pasted_ok (CHR 0x27) (email props)
      \<and> pasted_ok (CHR 0x22) (customerName props))"

text \<open>The three objects the script posts: \<^verbatim>\<open>{type: 'success', data}\<close>, \<^verbatim>\<open>{type: 'cancel'}\<close>,
  \<^verbatim>\<open>{type: 'error', message}\<close>.\<close>

datatype message = Success string | Cancel | Error string

text \<open>
  The argument of \<^verbatim>\<open>PaystackPop.setup\<close>. The \<^verbatim>\<open>ref\<close> field is a random number behind the
  prefix \<^verbatim>\<open>dw_\<close>; nothing below depends on it and it is left out. The template writes
  \<^verbatim>\<open>amount: ${amountInKobo}\<close> into the script as the shortest decimal that reads back as
  the same double.
\<close>

record setup_config =
  cfg_key :: string
  cfg_email :: string
  cfg_amount :: double
  cfg_currency :: string
  cfg_customer_name :: string

text \<open>
  The page: the two script variables, the part of the DOM the script writes (the
  \<^verbatim>\<open>show\<close> class of the loading and error elements, the error text, the pay button's
  \<^verbatim>\<open>disabled\<close>), whether the web view's message bridge exists
  (\<^verbatim>\<open>window.ReactNativeWebView\<close> or the webkit message handler), the timers that are set
  and have not fired, and what has left the page: the messages handed to the bridge, the
  calls of \<^verbatim>\<open>PaystackPop.setup\<close> and the number of checkouts opened.
\<close>

record page =
  paymentInProgress :: bool
  retryCount :: nat
  loadingShown :: bool
  errorShown :: bool
  errorText :: string
  payButtonDisabled :: bool
  hasBridge :: bool
  openTimers :: nat
  hideErrorTimers :: nat
  autoTriggerTimer :: bool
  posted :: "message list"
  setups :: "setup_config list"
  opened :: nat

definition maxRetries :: nat where
  "maxRetries = 3"

definition showLoading :: "page \<Rightarrow> page" where
  "showLoading p = p\<lparr>loadingShown := True, errorShown := False, payButtonDisabled := True\<rparr>"

definition hideLoading :: "page \<Rightarrow> page" where
  "hideLoading p = p\<lparr>loadingShown := False, payButtonDisabled := False\<rparr>"

definition showError :: "string \<Rightarrow> page \<Rightarrow> page" where
  "showError msg p = hideLoading (p\<lparr>errorText := msg, errorShown := True\<rparr>)"

text \<open>
  \<^verbatim>\<open>postMessage(data)\<close>: hands the message to whichever bridge exists; without one it only
  logs to the console.
\<close>

definition postMessage :: "message \<Rightarrow> page \<Rightarrow> page" where
  "postMessage data p = (if hasBridge p then p\<lparr>posted := posted p @ [data]\<rparr> else p)"

text \<open>
  What \<^verbatim>\<open>payWithPaystack\<close> finds when it runs: \<^verbatim>\<open>PaystackPop\<close> undefined (the provider's
  script did not load), or defined with \<^verbatim>\<open>setup\<close> throwing an error of the given message,
  or defined with \<^verbatim>\<open>setup\<close> returning a handler.
\<close>

datatype paystack = PaystackUndefined | SetupThrows string | SetupReturns

definition setup_of :: "PaystackPaymentProps \<Rightarrow> setup_config" where
  "setup_of props =
     \<lparr>cfg_key = publicKey props, cfg_email = email props, cfg_amount = amountInKobo props,
      cfg_currency = ''NGN'', cfg_customer_name = customerName props\<rparr>"

definition payWithPaystack :: "PaystackPaymentProps \<Rightarrow> paystack \<Rightarrow> page \<Rightarrow> page" where
  "payWithPaystack props ps p =
     (if \<not> script_intact props then p
      else if paymentInProgress p then p
      else case ps of
        PaystackUndefined \<Rightarrow>
          (if retryCount p < maxRetries then
             (showError ''Loading payment system... Please try again.''
                (p\<lparr>retryCount := retryCount p + 1\<rparr>))
               \<lparr>hideErrorTimers := hideErrorTimers p + 1\<rparr>
           else
             showError
               ''Payment system failed to load. Please check your internet connection.'' p)
      | SetupThrows m \<Rightarrow>
          postMessage (Error (''Payment setup failed: '' @ m))
            (showError ''Payment setup failed. Please try again.''
               ((showLoading (p\<lparr>paymentInProgress := True\<rparr>))\<lparr>paymentInProgress := False\<rparr>))
      | SetupReturns \<Rightarrow>
          (showLoading (p\<lparr>paymentInProgress := True\<rparr>))
            \<lparr>setups := setups p @ [setup_of props], openTimers := openTimers p + 1\<rparr>)"

text \<open>
  The timer set after a successful \<^verbatim>\<open>setup\<close>: \<^verbatim>\<open>handler.openIframe()\<close>, which either opens
  the checkout or throws.
\<close>

definition openIframeTimer :: "bool \<Rightarrow> page \<Rightarrow> page" where
  "openIframeTimer throws p =
     (if openTimers p = 0 then p
      else let q = p\<lparr>openTimers := openTimers p - 1\<rparr> in
        if throws then
          postMessage (Error ''Failed to open payment window'')
            (showError ''Failed to open payment window. Please try again.''
               (q\<lparr>paymentInProgress := False\<rparr>))
        else q\<lparr>opened := opened q + 1\<rparr>)"

text \<open>The two handlers given to \<^verbatim>\<open>setup\<close>; the provider can call them once a handler exists.\<close>

definition callback :: "string \<Rightarrow> page \<Rightarrow> page" where
  "callback response p =
     (if setups p = [] then p
      else postMessage (Success response) (hideLoading (p\<lparr>paymentInProgress := False\<rparr>)))"

definition onClose :: "page \<Rightarrow> page" where
  "onClose p =
     (if setups p = [] then p
      else postMessage Cancel (hideLoading (p\<lparr>paymentInProgress := False\<rparr>)))"

definition cancelPayment :: "PaystackPaymentProps \<Rightarrow> page \<Rightarrow> page" where
  "cancelPayment props p =
     (if \<not> script_intact props then p
      else if paymentInProgress p then p
      else postMessage Cancel p)"

text \<open>
  The events of a presentation. A click on the pay button reaches \<^verbatim>\<open>payWithPaystack\<close>
  only while the button is not disabled. The two listeners exist when the script has
  run. The \<^verbatim>\<open>load\<close> listener sets one timer that calls
  \<^verbatim>\<open>payWithPaystack\<close> if no payment is in progress and \<^verbatim>\<open>PaystackPop\<close> is defined; the
  \<^verbatim>\<open>error\<close> listener shows a message when no payment is in progress.
\<close>

datatype event =
    PayClick paystack
  | CancelClick
  | CheckoutCallback string
  | CheckoutClose
  | OpenIframeTimer bool
  | HideErrorTimer
  | AutoTriggerTimer paystack
  | WindowError

fun step :: "PaystackPaymentProps \<Rightarrow> event \<Rightarrow> page \<Rightarrow> page" where
  "step props (PayClick ps) p = (if payButtonDisabled p then p else payWithPaystack props ps p)"
| "step props CancelClick p = cancelPayment props p"
| "step props (CheckoutCallback response) p = callback response p"
| "step props CheckoutClose p = onClose p"
| "step props (OpenIframeTimer throws) p = openIframeTimer throws p"
| "step props HideErrorTimer p =
     (if hideErrorTimers p = 0 then p
      else p\<lparr>hideErrorTimers := hideErrorTimers p - 1, errorShown := False\<rparr>)"
| "step props (AutoTriggerTimer ps) p =
     (if \<not> script_intact props \<or> \<not> autoTriggerTimer p then p
      else let q = p\<lparr>autoTriggerTimer := False\<rparr> in
        if \<not> paymentInProgress q \<and> ps \<noteq> PaystackUndefined then payWithPaystack props ps q
        else q)"
| "step props WindowError p =
     (if script_intact props \<and> \<not> paymentInProgress p
      then showError ''An error occurred. Please try again.'' p
      else p)"

fun run :: "PaystackPaymentProps \<Rightarrow> event list \<Rightarrow> page \<Rightarrow> page" where
  "run props [] p = p"
| "run props (e # es) p = run props es (step props e p)"

text \<open>The page as the web view loads it, with or without the message bridge.\<close>

definition initial_page :: "bool \<Rightarrow> page" where
  "initial_page bridge =
     \<lparr>paymentInProgress = False, retryCount = 0, loadingShown = False, errorShown = False,
      errorText = [], payButtonDisabled = False, hasBridge = bridge, openTimers = 0,
      hideErrorTimers = 0, autoTriggerTimer = True, posted = [], setups = [], opened = 0\<rparr>"

text \<open>
  The host's \<^verbatim>\<open>handleMessage\<close>: the callbacks of the component's caller that a message
  runs. An \<^verbatim>\<open>error\<close> message runs \<^verbatim>\<open>onCancel\<close>: the component has no error callback.
  The web view's own \<^verbatim>\<open>onError\<close>, \<^verbatim>\<open>onHttpError\<close> and \<^verbatim>\<open>onContentProcessDidTerminate\<close> props,
  which also run \<^verbatim>\<open>onCancel\<close>, report a failure of the page itself and are not events of
  the page's script; they are left out.
\<close>

datatype outcome = onSuccess string | onCancel

fun handleMessage :: "message \<Rightarrow> outcome list" where
  "handleMessage (Success d) = [onSuccess d]"
| "handleMessage Cancel = [onCancel]"
| "handleMessage (Error m) = [onCancel]"

definition delivered :: "page \<Rightarrow> outcome list" where
  "delivered p = concat (map handleMessage (posted p))"




subsection \<open>Order details: the backing store\<close>

text \<open>
  The modal reads and writes rows of a hosted store through the \<^verbatim>\<open>supabase\<close> client. The
  store is not part of the sources; the model keeps of it what the three handlers touch:
  the columns they write, one constructor per request they send, and the answer
  \<^verbatim>\<open>{ error }\<close> of each request.
\<close>

record db_error =
  err_code :: string
  err_message :: string

record transaction_row =
  tr_user_id :: string
  tr_type :: txn_kind
  tr_amount :: real
  tr_description :: string
  tr_reference :: string
  tr_status :: string

record order_row =
  or_payment_status :: string
  or_order_status :: string

record custom_request_row =
  cr_status :: string
  cr_invoice_sent :: bool

record invoice_row =
  in_custom_request_id :: string
  in_user_id :: string
  in_amount :: real
  in_original_amount :: real
  in_currency :: string
  in_description :: string
  in_status :: string

record notification_row =
  no_user_id :: string
  no_title :: string
  no_message :: string
  no_type :: string
  no_is_read :: bool

text \<open>
  The tables: \<^verbatim>\<open>profiles\<close> (the wallet balance by profile id), \<^verbatim>\<open>transactions\<close>,
  \<^verbatim>\<open>orders\<close> and \<^verbatim>\<open>custom_requests\<close> by row id, \<^verbatim>\<open>invoices\<close>, \<^verbatim>\<open>notifications\<close>.
\<close>

record store =
  tbl_profiles :: "string \<rightharpoonup> real"
  tbl_transactions :: "transaction_row list"
  tbl_orders :: "string \<rightharpoonup> order_row"
  tbl_custom_requests :: "string \<rightharpoonup> custom_request_row"
  tbl_invoices :: "invoice_row list"
  tbl_notifications :: "notification_row list"

text \<open>
  The requests of the handlers:
  \<^item> \<^verbatim>\<open>from('profiles').update({ wallet_balance }).eq('id', user_id)\<close>;
  \<^item> \<^verbatim>\<open>from('transactions').insert(row)\<close>;
  \<^item> \<^verbatim>\<open>from('orders').update({ payment_status }).eq('id', id)\<close>;
  \<^item> \<^verbatim>\<open>from('orders').update({ order_status }).eq('id', id)\<close>;
  \<^item> \<^verbatim>\<open>from('custom_requests').update({ status }).eq('id', id)\<close>;
  \<^item> \<^verbatim>\<open>from('notifications').insert(row)\<close>;
  \<^item> \<^verbatim>\<open>from('invoices').insert(row)\<close>;
  \<^item> \<^verbatim>\<open>from('custom_requests').update({ status: 'quoted', invoice_sent: true }).eq('id', id)\<close>.
\<close>

datatype call =
    UpdateWalletBalance string real
  | InsertTransaction transaction_row
  | UpdatePaymentStatus string string
  | UpdateOrderStatus string string
  | UpdateCustomStatus string string
  | InsertNotification notification_row
  | InsertInvoice invoice_row
  | UpdateQuotedInvoiceSent string

fun is_status_write :: "call \<Rightarrow> bool" where
  "is_status_write (UpdateOrderStatus i st) = True"
| "is_status_write (UpdateCustomStatus i st) = True"
| "is_status_write c = False"

text \<open>
  Modelled from the spec: the store's schema is not among the sources. The spec has the
  store enforce at most one invoice per custom order and report a violation as an error
  that can be told from other failures; the handler recognises it by the code
  \<^verbatim>\<open>23505\<close> and the constraint's name \<^verbatim>\<open>unique_invoice_per_custom_request\<close> in the
  message, so the store's answer carries both.
\<close>

definition unique_violation :: db_error where
  "unique_violation =
     \<lparr>err_code = ''23505'',
      err_message =
        ''duplicate key value violates unique constraint unique_invoice_per_custom_request''\<rparr>"

text \<open>
  Modelled from the spec: what a request does to the tables when the store accepts it.
  An update by id changes the row of that id and is no error when there is none; an
  insert appends; an invoice for a custom order that has one is refused.
\<close>

fun apply_call :: "call \<Rightarrow> store \<Rightarrow> db_error option \<times> store" where
  "apply_call (UpdateWalletBalance uid v) s =
     (None, case tbl_profiles s uid of
              None \<Rightarrow> s
            | Some b \<Rightarrow> s\<lparr>tbl_profiles := (tbl_profiles s)(uid \<mapsto> v)\<rparr>)"
| "apply_call (InsertTransaction row) s =
     (None, s\<lparr>tbl_transactions := tbl_transactions s @ [row]\<rparr>)"
| "apply_call (UpdatePaymentStatus i st) s =
     (None, case tbl_orders s i of
              None \<Rightarrow> s
            | Some r \<Rightarrow> s\<lparr>tbl_orders := (tbl_orders s)(i \<mapsto> r\<lparr>or_payment_status := st\<rparr>)\<rparr>)"
| "apply_call (UpdateOrderStatus i st) s =
     (None, case tbl_orders s i of
              None \<Rightarrow> s
            | Some r \<Rightarrow> s\<lparr>tbl_orders := (tbl_orders s)(i \<mapsto> r\<lparr>or_order_status := st\<rparr>)\<rparr>)"
| "apply_call (UpdateCustomStatus i st) s =
     (None, case tbl_custom_requests s i of
              None \<Rightarrow> s
            | Some r \<Rightarrow>
                s\<lparr>tbl_custom_requests := (tbl_custom_requests s)(i \<mapsto> r\<lparr>cr_status := st\<rparr>)\<rparr>)"
| "apply_call (InsertNotification row) s =
     (None, s\<lparr>tbl_notifications := tbl_notifications s @ [row]\<rparr>)"
| "apply_call (InsertInvoice row) s =
     (if list_ex (\<lambda>r. in_custom_request_id r = in_custom_request_id row) (tbl_invoices s)
      then (Some unique_violation, s)
      else (None, s\<lparr>tbl_invoices := tbl_invoices s @ [row]\<rparr>))"
| "apply_call (UpdateQuotedInvoiceSent i) s =
     (None, case tbl_custom_requests s i of
              None \<Rightarrow> s
            | Some r \<Rightarrow>
                s\<lparr>tbl_custom_requests :=
                    (tbl_custom_requests s)(i \<mapsto> r\<lparr>cr_status := ''quoted'', cr_invoice_sent := True\<rparr>)\<rparr>)"

subsection \<open>Order details: the modal of \<^verbatim>\<open>src/unnamed/part_001\<close>\<close>

text \<open>
  The \<^verbatim>\<open>order\<close> prop, with the fields the handlers and the render gates read. An optional
  field of the interface is an \<^typ>\<open>'a option\<close>. The order is the copy the screen fetched:
  \<^verbatim>\<open>profiles\<close> is the joined profile row as it was then.
\<close>

record Profile =
  pf_full_name :: string
  pf_email :: string
  pf_wallet_balance :: real
  pf_preferred_currency :: "string option"

record OrderItem =
  it_product_id :: string
  it_name :: string
  it_price :: real
  it_quantity :: nat
  it_size :: string
  it_color :: string

record Invoice =
  iv_id :: string
  iv_amount :: real
  iv_description :: string
  iv_status :: string
  iv_currency :: string
  iv_original_amount :: real
  iv_created_at :: string

record Order =
  o_id :: string
  o_user_id :: string
  o_items :: "OrderItem list option"
  o_total :: real
  o_payment_status :: "string option"
  o_order_status :: "string option"
  o_currency :: "string option"
  o_profiles :: "Profile option"
  o_title :: "string option"
  o_status :: "string option"
  o_invoice_sent :: "bool option"
  o_invoices :: "Invoice list option"

text \<open>
  What the handlers close over: \<^verbatim>\<open>isAdmin\<close> of \<^verbatim>\<open>useAuth()\<close>, the \<^verbatim>\<open>order\<close> prop, and two
  functions that are not among the sources and stay parameters: \<^verbatim>\<open>convertToNGN\<close> of
  \<^verbatim>\<open>@/lib/currency\<close> and the runtime's \<^verbatim>\<open>parseFloat\<close>. The handlers exist only once the
  component is past \<^verbatim>\<open>if (!order) return null\<close>, so the order is not optional here.
\<close>

record scope =
  isAdmin :: bool
  order :: Order
  convertToNGN :: "real \<Rightarrow> string \<Rightarrow> real"
  parseFloat :: "string \<Rightarrow> real"

text \<open>
  Everything the handlers change: the store, the log of the requests sent (in order),
  the answers the store will not give (a script of transport failures, one entry per
  request to come, \<open>None\<close> or no entry for a request that reaches the store), the alerts
  shown, the component's state (\<^verbatim>\<open>updating\<close>, \<^verbatim>\<open>showInvoiceModal\<close>, \<^verbatim>\<open>invoiceData\<close>) and the
  number of calls of the props \<^verbatim>\<open>onOrderUpdate\<close> and \<^verbatim>\<open>onClose\<close>. Console output is left
  out.
\<close>

record world =
  db :: store
  calls :: "call list"
  faults :: "db_error option list"
  alerts :: "(string \<times> string) list"
  updating :: bool
  showInvoiceModal :: bool
  invoiceData_amount :: string
  invoiceData_description :: string
  onOrderUpdate_calls :: nat
  onClose_calls :: nat

text \<open>
  One awaited request: it is logged, it uses up one entry of the failure script, and it
  either fails in transport (error returned, tables untouched) or reaches the store.
\<close>

definition supabase :: "call \<Rightarrow> world \<Rightarrow> db_error option \<times> world" where
  "supabase c w =
     (let w1 = w\<lparr>calls := calls w @ [c], faults := tl (faults w)\<rparr> in
      case faults w of
        Some e # fs \<Rightarrow> (Some e, w1)
      | _ \<Rightarrow> (case apply_call c (db w) of (r, s) \<Rightarrow> (r, w1\<lparr>db := s\<rparr>)))"

definition next_fault :: "world \<Rightarrow> db_error option" where
  "next_fault w = (case faults w of Some e # fs \<Rightarrow> Some e | _ \<Rightarrow> None)"

definition no_fault :: "nat \<Rightarrow> world \<Rightarrow> bool" where
  "no_fault n w = list_all (\<lambda>f. f = None) (take n (faults w))"

definition Alert_alert :: "string \<Rightarrow> string \<Rightarrow> world \<Rightarrow> world" where
  "Alert_alert title msg w = w\<lparr>alerts := alerts w @ [(title, msg)]\<rparr>"

text \<open>\<^verbatim>\<open>const isCustomOrder = !order.items;\<close> (an empty array is truthy) and
  \<^verbatim>\<open>const currentStatus = isCustomOrder ? order.status : order.order_status;\<close>\<close>

definition isCustomOrder :: "Order \<Rightarrow> bool" where
  "isCustomOrder ord = (o_items ord = None)"

definition currentStatus :: "Order \<Rightarrow> string option" where
  "currentStatus ord = (if isCustomOrder ord then o_status ord else o_order_status ord)"

text \<open>\<^verbatim>\<open>a || b\<close> on an optional string: \<^verbatim>\<open>undefined\<close> and the empty string are falsy.\<close>

fun or_else :: "string option \<Rightarrow> string \<Rightarrow> string" where
  "or_else None b = b"
| "or_else (Some a) b = (if a = [] then b else a)"

definition getActualPaymentCurrency :: "Order \<Rightarrow> string" where
  "getActualPaymentCurrency ord =
     (if isCustomOrder ord then
        or_else (o_currency ord)
          (or_else (case o_profiles ord of None \<Rightarrow> None | Some pf \<Rightarrow> pf_preferred_currency pf)
             ''NGN'')
      else or_else (o_currency ord) ''NGN'')"

text \<open>String helpers of the notification texts; \<^verbatim>\<open>toUpperCase\<close> on ASCII letters.\<close>

definition toUpperCase :: "char \<Rightarrow> char" where
  "toUpperCase c =
     (let n = (of_char c :: nat) in if 97 \<le> n \<and> n \<le> 122 then char_of (n - 32) else c)"

fun capitalize :: "string \<Rightarrow> string" where
  "capitalize [] = []"
| "capitalize (c # cs) = toUpperCase c # cs"

fun template :: "string option \<Rightarrow> string" where
  "template None = ''undefined''"
| "template (Some t) = t"

text \<open>\<^verbatim>\<open>s.includes(sub)\<close>\<close>

fun starts_with :: "string \<Rightarrow> string \<Rightarrow> bool" where
  "starts_with s [] = True"
| "starts_with [] (c # sub) = False"
| "starts_with (d # s) (c # sub) = (d = c \<and> starts_with s sub)"

fun includes_sub :: "string \<Rightarrow> string \<Rightarrow> bool" where
  "includes_sub [] sub = (sub = [])"
| "includes_sub (d # s) sub = (starts_with (d # s) sub \<or> includes_sub s sub)"

text \<open>
  \<^verbatim>\<open>handleRefund\<close>. It returns at once when the order carries no profile; otherwise it
  sends three requests and throws the first error it is given. The result is \<open>Inl e\<close>
  for a throw of \<open>e\<close> and \<open>Inr ()\<close> for a normal return.
\<close>

definition refund_transaction :: "Order \<Rightarrow> transaction_row" where
  "refund_transaction ord =
     \<lparr>tr_user_id = o_user_id ord, tr_type = credit, tr_amount = o_total ord,
      tr_description = ''Refund for cancelled order #'' @ take 8 (o_id ord),
      tr_reference = o_id ord, tr_status = ''completed''\<rparr>"

definition handleRefund :: "scope \<Rightarrow> world \<Rightarrow> (db_error + unit) \<times> world" where
  "handleRefund sc w =
     (case o_profiles (order sc) of
        None \<Rightarrow> (Inr (), w)
      | Some pf \<Rightarrow>
          (case supabase
                  (UpdateWalletBalance (o_user_id (order sc))
                     (pf_wallet_balance pf + o_total (order sc))) w of
             (Some walletError, w1) \<Rightarrow> (Inl walletError, w1)
           | (None, w1) \<Rightarrow>
               (case supabase (InsertTransaction (refund_transaction (order sc))) w1 of
                  (Some transactionError, w2) \<Rightarrow> (Inl transactionError, w2)
                | (None, w2) \<Rightarrow>
                    (case supabase (UpdatePaymentStatus (o_id (order sc)) ''refunded'') w2 of
                       (Some paymentError, w3) \<Rightarrow> (Inl paymentError, w3)
                     | (None, w3) \<Rightarrow> (Inr (), w3)))))"

text \<open>
  \<^verbatim>\<open>handleStatusUpdate\<close>. The \<^verbatim>\<open>catch\<close> block shows the failure alert; the \<^verbatim>\<open>finally\<close> block
  resets \<^verbatim>\<open>updating\<close>. The result of the notification insert is not looked at.
\<close>

definition status_notification :: "Order \<Rightarrow> string \<Rightarrow> notification_row" where
  "status_notification ord newStatus =
     \<lparr>no_user_id = o_user_id ord,
      no_title = ''Order '' @ capitalize newStatus,
      no_message =
        (if isCustomOrder ord
         then ''Your custom order \"'' @ template (o_title ord) @ ''\" has been '' @ newStatus
         else ''Your order #'' @ take 8 (o_id ord) @ '' has been '' @ newStatus),
      no_type = ''order'', no_is_read = False\<rparr>"

definition status_update_failed :: "world \<Rightarrow> world" where
  "status_update_failed w =
     (Alert_alert ''Error'' ''Failed to update order status'' w)\<lparr>updating := False\<rparr>"

definition handleStatusUpdate :: "scope \<Rightarrow> string \<Rightarrow> world \<Rightarrow> world" where
  "handleStatusUpdate sc newStatus w =
     (let ord = order sc;
          w0 = w\<lparr>updating := True\<rparr>;
          refund =
            (if newStatus = ''cancelled'' \<and> \<not> isCustomOrder ord
                \<and> o_payment_status ord = Some ''paid''
             then handleRefund sc w0 else (Inr (), w0))
      in case refund of
           (Inl e, w1) \<Rightarrow> status_update_failed w1
         | (Inr u, w1) \<Rightarrow>
             (case supabase
                     (if isCustomOrder ord then UpdateCustomStatus (o_id ord) newStatus
                      else UpdateOrderStatus (o_id ord) newStatus) w1 of
                (Some e, w2) \<Rightarrow> status_update_failed w2
              | (None, w2) \<Rightarrow>
                  (let w3 = snd (supabase (InsertNotification (status_notification ord newStatus)) w2)
                   in (Alert_alert ''Success'' ''Order status updated successfully'' w3)
                        \<lparr>onOrderUpdate_calls := onOrderUpdate_calls w3 + 1,
                         onClose_calls := onClose_calls w3 + 1,
                         updating := False\<rparr>)))"

text \<open>The store after the first request of the refund has reached it: the wallet balance
  of the owning profile, if the profile exists, is the fetched balance plus the total.\<close>

definition wallet_written :: "Order \<Rightarrow> Profile \<Rightarrow> store \<Rightarrow> store" where
  "wallet_written ord pf s =
     (case tbl_profiles s (o_user_id ord) of
        None \<Rightarrow> s
      | Some b \<Rightarrow>
          s\<lparr>tbl_profiles :=
              (tbl_profiles s)(o_user_id ord \<mapsto> pf_wallet_balance pf + o_total ord)\<rparr>)"

text \<open>\<^verbatim>\<open>handleSendInvoice\<close>.\<close>

definition invoice_of :: "scope \<Rightarrow> world \<Rightarrow> invoice_row" where
  "invoice_of sc w =
     (let actualPaymentCurrency = getActualPaymentCurrency (order sc);
          amountInCustomerCurrency = parseFloat sc (invoiceData_amount w);
          amountInNGN =
            (if actualPaymentCurrency = ''NGN'' then amountInCustomerCurrency
             else convertToNGN sc amountInCustomerCurrency actualPaymentCurrency)
      in \<lparr>in_custom_request_id = o_id (order sc), in_user_id = o_user_id (order sc),
          in_amount = amountInNGN, in_original_amount = amountInCustomerCurrency,
          in_currency = actualPaymentCurrency,
          in_description = invoiceData_description w, in_status = ''sent''\<rparr>)"

definition invoice_notification :: "Order \<Rightarrow> notification_row" where
  "invoice_notification ord =
     \<lparr>no_user_id = o_user_id ord, no_title = ''Invoice Received'',
      no_message =
        ''You've received an invoice for your custom order \"'' @ template (o_title ord)
          @ ''\". Please review and respond.'',
      no_type = ''custom'', no_is_read = False\<rparr>"

definition only_one_invoice :: string where
  "only_one_invoice =
     ''An invoice has already been sent for this custom order. Only one invoice can be sent per order.''"

definition handleSendInvoice :: "scope \<Rightarrow> world \<Rightarrow> world" where
  "handleSendInvoice sc w =
     (if invoiceData_amount w = [] \<or> invoiceData_description w = [] then
        Alert_alert ''Error'' ''Please fill in all invoice fields'' w
      else if o_invoice_sent (order sc) = Some True then
        Alert_alert ''Invoice Already Sent'' only_one_invoice w
      else if (case o_invoices (order sc) of None \<Rightarrow> False | Some ivs \<Rightarrow> length ivs > 0) then
        Alert_alert ''Invoice Already Exists''
          ''An invoice already exists for this custom order.'' w
      else
        (case supabase (InsertInvoice (invoice_of sc w)) w of
           (Some invoiceError, w1) \<Rightarrow>
             (if err_code invoiceError = ''23505''
                 \<and> includes_sub (err_message invoiceError) ''unique_invoice_per_custom_request''
              then Alert_alert ''Invoice Already Exists'' only_one_invoice w1
              else Alert_alert ''Error'' ''Failed to send invoice'' w1)
         | (None, w1) \<Rightarrow>
             (case supabase (UpdateQuotedInvoiceSent (o_id (order sc))) w1 of
                (Some statusError, w2) \<Rightarrow> Alert_alert ''Error'' ''Failed to send invoice'' w2
              | (None, w2) \<Rightarrow>
                  (let w3 = snd (supabase (InsertNotification (invoice_notification (order sc))) w2)
                   in (Alert_alert ''Success''
                         (''Invoice sent successfully in '' @ getActualPaymentCurrency (order sc)) w3)
                        \<lparr>showInvoiceModal := False, invoiceData_amount := [],
                         invoiceData_description := [],
                         onOrderUpdate_calls := onOrderUpdate_calls w3 + 1\<rparr>))))"

text \<open>
  The render gates. The status section is rendered for an admin while the current status
  is not final, with one button per status of the order's kind, disabled while
  \<^verbatim>\<open>updating\<close> or for the current status. \<^verbatim>\<open>canSendInvoice()\<close> gates the button that
  opens the invoice form; the form itself is rendered for an admin on a custom order and
  shown while \<^verbatim>\<open>showInvoiceModal\<close> is set.
\<close>

definition statusOptions :: "string list" where
  "statusOptions =
     [''pending'', ''confirmed'', ''processing'', ''shipped'', ''delivered'', ''cancelled'']"

definition customStatusOptions :: "string list" where
  "customStatusOptions =
     [''pending'', ''under_review'', ''quoted'', ''accepted'', ''rejected'', ''payment_made'',
      ''completed'', ''cancelled'']"

definition status_section_rendered :: "scope \<Rightarrow> bool" where
  "status_section_rendered sc =
     (isAdmin sc \<and>
      or_else (currentStatus (order sc)) [] \<notin>
        set [''completed'', ''cancelled'', ''delivered'', ''rejected''])"

definition status_option_enabled :: "scope \<Rightarrow> world \<Rightarrow> string \<Rightarrow> bool" where
  "status_option_enabled sc w st =
     (status_section_rendered sc
      \<and> st \<in> set (if isCustomOrder (order sc) then customStatusOptions else statusOptions)
      \<and> \<not> (updating w \<or> currentStatus (order sc) = Some st))"

definition canSendInvoice :: "scope \<Rightarrow> bool" where
  "canSendInvoice sc =
     (if \<not> isAdmin sc \<or> \<not> isCustomOrder (order sc) then False
      else if or_else (currentStatus (order sc)) [] \<in>
                set [''completed'', ''cancelled'', ''rejected''] then False
      else if o_invoice_sent (order sc) = Some True
              \<or> (case o_invoices (order sc) of None \<Rightarrow> False | Some ivs \<Rightarrow> length ivs > 0)
           then False
      else True)"

definition invoice_modal_shown :: "scope \<Rightarrow> world \<Rightarrow> bool" where
  "invoice_modal_shown sc w = (isAdmin sc \<and> isCustomOrder (order sc) \<and> showInvoiceModal w)"

text \<open>What a user can do in the modal, each action reaching its handler only through a
  control that is rendered and enabled.\<close>

datatype press =
    PressStatusOption string
  | PressSendInvoiceButton
  | ChangeInvoiceAmount string
  | ChangeInvoiceDescription string
  | PressInvoiceModalCancel
  | PressInvoiceModalSend

fun interact :: "scope \<Rightarrow> press \<Rightarrow> world \<Rightarrow> world" where
  "interact sc (PressStatusOption st) w =
     (if status_option_enabled sc w st then handleStatusUpdate sc st w else w)"
| "interact sc PressSendInvoiceButton w =
     (if isCustomOrder (order sc) \<and> canSendInvoice sc then w\<lparr>showInvoiceModal := True\<rparr> else w)"
| "interact sc (ChangeInvoiceAmount text) w =
     (if invoice_modal_shown sc w then w\<lparr>invoiceData_amount := text\<rparr> else w)"
| "interact sc (ChangeInvoiceDescription text) w =
     (if invoice_modal_shown sc w then w\<lparr>invoiceData_description := text\<rparr> else w)"
| "interact sc PressInvoiceModalCancel w =
     (if invoice_modal_shown sc w then w\<lparr>showInvoiceModal := False\<rparr> else w)"
| "interact sc PressInvoiceModalSend w =
     (if invoice_modal_shown sc w then handleSendInvoice sc w else w)"

fun interactions :: "scope \<Rightarrow> press list \<Rightarrow> world \<Rightarrow> world" where
  "interactions sc [] w = w"
| "interactions sc (a # as) w = interactions sc as (interact sc a w)"



subsection \<open>Order details: concrete inputs\<close>

text \<open>
  Modelled from the spec: \<^verbatim>\<open>@/lib/currency\<close> is not among the sources. The spec describes
  \<^verbatim>\<open>convertToBase\<close> as a linear conversion at a static rate; the rate of 1500 per USD
  below is an example and is used only to run the handlers on concrete inputs, as is the
  reading of a string of decimal digits that stands for \<^verbatim>\<open>parseFloat\<close> there.
\<close>

definition example_convertToNGN :: "real \<Rightarrow> string \<Rightarrow> real" where
  "example_convertToNGN a cur = a * (if cur = ''USD'' then 1500 else 1)"

definition example_parseFloat :: "string \<Rightarrow> real" where
  "example_parseFloat s = foldl (\<lambda>n c. 10 * n + real (of_char c - 48)) 0 s"

definition example_profile :: Profile where
  "example_profile =
     \<lparr>pf_full_name = ''Ada Obi'', pf_email = ''ada@example.com'', pf_wallet_balance = 2000,
      pf_preferred_currency = Some ''USD''\<rparr>"

text \<open>A paid standard order of total 15000 and a custom order awaiting its quotation.\<close>

definition example_order :: Order where
  "example_order =
     \<lparr>o_id = ''0a1b2c3d-order'', o_user_id = ''user-1'',
      o_items = Some [\<lparr>it_product_id = ''p1'', it_name = ''Shirt'', it_price = 15000,
        it_quantity = 1, it_size = ''M'', it_color = ''Black''\<rparr>],
      o_total = 15000, o_payment_status = Some ''paid'', o_order_status = Some ''confirmed'',
      o_currency = None, o_profiles = Some example_profile, o_title = None, o_status = None,
      o_invoice_sent = None, o_invoices = None\<rparr>"

definition example_custom_order :: Order where
  "example_custom_order =
     \<lparr>o_id = ''9f8e7d6c-custom'', o_user_id = ''user-1'', o_items = None, o_total = 0,
      o_payment_status = None, o_order_status = None, o_currency = Some ''USD'',
      o_profiles = Some example_profile, o_title = Some ''Team jerseys'',
      o_status = Some ''under_review'', o_invoice_sent = Some False, o_invoices = Some []\<rparr>"

definition example_store :: store where
  "example_store =
     \<lparr>tbl_profiles = [''user-1'' \<mapsto> 2000],
      tbl_transactions = [],
      tbl_orders = [''0a1b2c3d-order'' \<mapsto>
        \<lparr>or_payment_status = ''paid'', or_order_status = ''confirmed''\<rparr>],
      tbl_custom_requests = [''9f8e7d6c-custom'' \<mapsto>
        \<lparr>cr_status = ''under_review'', cr_invoice_sent = False\<rparr>],
      tbl_invoices = [], tbl_notifications = []\<rparr>"

text \<open>The world before a handler runs, with a given script of transport failures and a
  given content of the invoice form.\<close>

definition example_world :: "db_error option list \<Rightarrow> string \<Rightarrow> string \<Rightarrow> world" where
  "example_world fs amt descr =
     \<lparr>db = example_store, calls = [], faults = fs, alerts = [], updating = False,
      showInvoiceModal = False, invoiceData_amount = amt, invoiceData_description = descr,
      onOrderUpdate_calls = 0, onClose_calls = 0\<rparr>"

definition example_scope :: "bool \<Rightarrow> Order \<Rightarrow> scope" where
  "example_scope admin ord =
     \<lparr>isAdmin = admin, order = ord, convertToNGN = example_convertToNGN,
      parseFloat = example_parseFloat\<rparr>"

definition network_error :: db_error where
  "network_error = \<lparr>err_code = [], err_message = ''Network request failed''\<rparr>"

subsection \<open>Wallet history: proofs\<close>

lemma foldl_amounts:
  "foldl (\<lambda>sum t. sum + txn_amount t) a ts = a + sum_list (map txn_amount ts)"
  by (induction ts arbitrary: a) simp_all

lemma totalCredits_shares: "totalCredits ts = sum_list (map credit_share ts)"
  by (induction ts rule: rev_induct)
    (simp_all add: totalCredits_def credit_share_def)

lemma totalDebits_shares: "totalDebits ts = sum_list (map debit_share ts)"
  by (induction ts rule: rev_induct)
    (simp_all add: totalDebits_def debit_share_def)

text \<open>
  Claim C10. For every fetched transaction list, Total Credits is the sum of the amounts
  of exactly the transactions of type credit and status completed, Total Debits the sum
  over exactly those of type debit and status completed; a transaction of any other
  status adds nothing to either total.
\<close>

theorem wallet_totals_completed_only:
  "totalCredits ts =
     sum_list (map txn_amount
       (filter (\<lambda>t. txn_type t = credit \<and> txn_status t = ''completed'') ts))
   \<and> totalDebits ts =
     sum_list (map txn_amount
       (filter (\<lambda>t. txn_type t = debit \<and> txn_status t = ''completed'') ts))
   \<and> totalCredits ts = sum_list (map credit_share ts)
   \<and> totalDebits ts = sum_list (map debit_share ts)
   \<and> (txn_status t \<noteq> ''completed'' \<longrightarrow>
        credit_share t = 0 \<and> debit_share t = 0
        \<and> totalCredits (xs @ t # ys) = totalCredits (xs @ ys)
        \<and> totalDebits (xs @ t # ys) = totalDebits (xs @ ys))"
proof -
  have "totalCredits ts =
     sum_list (map txn_amount
       (filter (\<lambda>t. txn_type t = credit \<and> txn_status t = ''completed'') ts))"
    and "totalDebits ts =
     sum_list (map txn_amount
       (filter (\<lambda>t. txn_type t = debit \<and> txn_status t = ''completed'') ts))"
    by (simp_all add: totalCredits_def totalDebits_def foldl_amounts)
  moreover have "txn_status t \<noteq> ''completed'' \<longrightarrow>
        credit_share t = 0 \<and> debit_share t = 0
        \<and> totalCredits (xs @ t # ys) = totalCredits (xs @ ys)
        \<and> totalDebits (xs @ t # ys) = totalDebits (xs @ ys)"
    by (simp add: totalCredits_def totalDebits_def credit_share_def debit_share_def)
  ultimately show ?thesis
    using totalCredits_shares [of ts] totalDebits_shares [of ts] by simp
qed

theorem wallet_totals_completed_only_witness:
  "txn_status \<lparr>txn_id = ''t3'', txn_type = credit, txn_amount = 70,
      txn_description = ''Wallet funding'', txn_status = ''pending'',
      txn_created_at = ''2025-01-03''\<rparr> \<noteq> ''completed''
   \<and> totalCredits
      [\<lparr>txn_id = ''t1'', txn_type = credit, txn_amount = 100,
         txn_description = ''Wallet funding'', txn_status = ''completed'',
         txn_created_at = ''2025-01-01''\<rparr>,
       \<lparr>txn_id = ''t3'', txn_type = credit, txn_amount = 70,
         txn_description = ''Wallet funding'', txn_status = ''pending'',
         txn_created_at = ''2025-01-03''\<rparr>,
       \<lparr>txn_id = ''t2'', txn_type = debit, txn_amount = 40,
         txn_description = ''Order payment'', txn_status = ''completed'',
         txn_created_at = ''2025-01-02''\<rparr>] = 100
   \<and> totalDebits
      [\<lparr>txn_id = ''t1'', txn_type = credit, txn_amount = 100,
         txn_description = ''Wallet funding'', txn_status = ''completed'',
         txn_created_at = ''2025-01-01''\<rparr>,
       \<lparr>txn_id = ''t3'', txn_type = credit, txn_amount = 70,
         txn_description = ''Wallet funding'', txn_status = ''pending'',
         txn_created_at = ''2025-01-03''\<rparr>,
       \<lparr>txn_id = ''t2'', txn_type = debit, txn_amount = 40,
         txn_description = ''Order payment'', txn_status = ''completed'',
         txn_created_at = ''2025-01-02''\<rparr>] = 40"
  using wallet_totals_completed_only
    [of "[\<lparr>txn_id = ''t1'', txn_type = credit, txn_amount = 100,
         txn_description = ''Wallet funding'', txn_status = ''completed'',
         txn_created_at = ''2025-01-01''\<rparr>,
       \<lparr>txn_id = ''t3'', txn_type = credit, txn_amount = 70,
         txn_description = ''Wallet funding'', txn_status = ''pending'',
         txn_created_at = ''2025-01-03''\<rparr>,
       \<lparr>txn_id = ''t2'', txn_type = debit, txn_amount = 40,
         txn_description = ''Order payment'', txn_status = ''completed'',
         txn_created_at = ''2025-01-02''\<rparr>]"
      "\<lparr>txn_id = ''t3'', txn_type = credit, txn_amount = 70,
         txn_description = ''Wallet funding'', txn_status = ''pending'',
         txn_created_at = ''2025-01-03''\<rparr>"]
  by simp

subsection \<open>Payment bridge: the product of doubles\<close>







subsection \<open>Payment bridge: proofs\<close>










lemma undefined_clicks:
  "script_intact props \<Longrightarrow> \<not> paymentInProgress p \<Longrightarrow> \<not> payButtonDisabled p \<Longrightarrow>
   (let q = run props (replicate n (PayClick PaystackUndefined)) p in
     posted q = posted p \<and> setups q = setups p \<and> \<not> paymentInProgress q \<and> \<not> payButtonDisabled q
     \<and> retryCount q = (if retryCount p \<le> maxRetries then min (retryCount p + n) maxRetries else retryCount p))"
proof (induction n arbitrary: p)
  case 0
  then show ?case by (simp add: Let_def)
next
  case (Suc n)
  let ?p' = "step props (PayClick PaystackUndefined) p"
  have a: "\<not> paymentInProgress ?p'" "\<not> payButtonDisabled ?p'" "posted ?p' = posted p" "setups ?p' = setups p"
    "retryCount ?p' = (if retryCount p < maxRetries then retryCount p + 1 else retryCount p)"
    using Suc.prems by (simp_all add: payWithPaystack_def showError_def hideLoading_def)
  from Suc.IH [OF Suc.prems(1) a(1) a(2)] a(3-5) show ?case
    by (auto simp: Let_def maxRetries_def min_def)
qed

lemma lost_script_clicks:
  "\<not> script_intact props \<Longrightarrow> run props (replicate n (PayClick ps)) p = p"
  by (induction n) (simp_all add: payWithPaystack_def)

text \<open>
  Claim C7 (the code departs from it). While the provider's script is not loaded, no
  number of clicks on the pay button makes the page post a message: the first three
  clicks count a retry and show a transient text, every later click shows the final
  text, and the host is told nothing. The two \<^verbatim>\<open>catch\<close> branches of the same function
  do post an \<^verbatim>\<open>error\<close> message after \<^verbatim>\<open>showError\<close>; this branch only calls
  \<^verbatim>\<open>showError\<close>.
\<close>

theorem load_failure_posts_nothing:
  "posted (run props (replicate n (PayClick PaystackUndefined)) (initial_page bridge)) = []
   \<and> delivered (run props (replicate n (PayClick PaystackUndefined)) (initial_page bridge)) = []
   \<and> retryCount (run props (replicate n (PayClick PaystackUndefined)) (initial_page bridge))
       = (if script_intact props then min n 3 else 0)"
proof (cases "script_intact props")
  case True
  then show ?thesis
    using undefined_clicks [of props "initial_page bridge" n]
    by (simp add: Let_def delivered_def initial_page_def maxRetries_def)
next
  case False
  then show ?thesis
    by (simp add: lost_script_clicks delivered_def initial_page_def)
qed








subsection \<open>Order details: requests and the refund\<close>

lemma supabase_fault:
  "faults w = Some e # fs \<Longrightarrow>
   supabase c w = (Some e, w\<lparr>calls := calls w @ [c], faults := fs\<rparr>)"
  by (simp add: supabase_def)

lemma supabase_reached:
  "next_fault w = None \<Longrightarrow>
   supabase c w =
     (fst (apply_call c (db w)),
      w\<lparr>calls := calls w @ [c], faults := tl (faults w), db := snd (apply_call c (db w))\<rparr>)"
  by (auto simp: supabase_def next_fault_def split: list.splits option.splits prod.splits)

lemma next_fault_cases:
  obtains (fault) e fs where "faults w = Some e # fs" | (reached) "next_fault w = None"
  by (cases "faults w"; cases "hd (faults w)") (auto simp: next_fault_def)

lemma supabase_calls [simp]: "calls (snd (supabase c w)) = calls w @ [c]"
  by (cases w rule: next_fault_cases) (simp_all add: supabase_fault supabase_reached)

lemma supabase_faults [simp]: "faults (snd (supabase c w)) = tl (faults w)"
  by (cases w rule: next_fault_cases) (simp_all add: supabase_fault supabase_reached)

lemma supabase_frame [simp]:
  "alerts (snd (supabase c w)) = alerts w"
  "updating (snd (supabase c w)) = updating w"
  "showInvoiceModal (snd (supabase c w)) = showInvoiceModal w"
  "invoiceData_amount (snd (supabase c w)) = invoiceData_amount w"
  "invoiceData_description (snd (supabase c w)) = invoiceData_description w"
  "onOrderUpdate_calls (snd (supabase c w)) = onOrderUpdate_calls w"
  "onClose_calls (snd (supabase c w)) = onClose_calls w"
  by (cases w rule: next_fault_cases; simp add: supabase_fault supabase_reached)+

lemma supabase_error_db:
  "fst (supabase c w) = Some e \<Longrightarrow> db (snd (supabase c w)) = db w"
  by (cases w rule: next_fault_cases; cases c)
    (simp_all add: supabase_fault supabase_reached split: if_splits)

lemma no_fault_Suc:
  "no_fault (Suc n) w = (next_fault w = None \<and> no_fault n (w\<lparr>faults := tl (faults w)\<rparr>))"
  by (cases "faults w"; cases "hd (faults w)") (auto simp: no_fault_def next_fault_def)

lemma supabase_db:
  "db (snd (supabase c w)) = (if next_fault w = None then snd (apply_call c (db w)) else db w)"
  by (cases w rule: next_fault_cases)
    (simp_all add: supabase_fault supabase_reached next_fault_def)

lemma handleRefund_unfold:
  "handleRefund sc w =
     (case o_profiles (order sc) of
        None \<Rightarrow> (Inr (), w)
      | Some pf \<Rightarrow>
          (let r1 = supabase (UpdateWalletBalance (o_user_id (order sc))
                     (pf_wallet_balance pf + o_total (order sc))) w in
           case fst r1 of Some e \<Rightarrow> (Inl e, snd r1)
           | None \<Rightarrow>
             (let r2 = supabase (InsertTransaction (refund_transaction (order sc))) (snd r1) in
              case fst r2 of Some e \<Rightarrow> (Inl e, snd r2)
              | None \<Rightarrow>
                (let r3 = supabase (UpdatePaymentStatus (o_id (order sc)) ''refunded'') (snd r2) in
                 case fst r3 of Some e \<Rightarrow> (Inl e, snd r3) | None \<Rightarrow> (Inr (), snd r3)))))"
  by (simp add: handleRefund_def Let_def split: option.splits prod.splits)

lemma handleRefund_calls:
  "\<exists>cs. calls (snd (handleRefund sc w)) = calls w @ cs \<and> \<not> list_ex is_status_write cs"
  by (simp add: handleRefund_unfold Let_def split: option.splits)

lemma handleRefund_notifications:
  "tbl_notifications (db (snd (handleRefund sc w))) = tbl_notifications (db w)"
  by (simp add: handleRefund_unfold Let_def supabase_db split: option.splits)

lemma supabase_orders_frame:
  "\<forall>i st. c \<noteq> UpdatePaymentStatus i st \<and> c \<noteq> UpdateOrderStatus i st \<Longrightarrow>
   tbl_orders (db (snd (supabase c w))) = tbl_orders (db w)"
  by (cases c) (simp_all add: supabase_db split: option.splits)

lemma handleRefund_raises_orders:
  assumes "fst (handleRefund sc w) = Inl e"
  shows "tbl_orders (db (snd (handleRefund sc w))) = tbl_orders (db w)"
proof (cases "o_profiles (order sc)")
  case None
  then show ?thesis by (simp add: handleRefund_unfold)
next
  case (Some pf)
  let ?r1 = "supabase (UpdateWalletBalance (o_user_id (order sc))
                     (pf_wallet_balance pf + o_total (order sc))) w"
  let ?r2 = "supabase (InsertTransaction (refund_transaction (order sc))) (snd ?r1)"
  let ?r3 = "supabase (UpdatePaymentStatus (o_id (order sc)) ''refunded'') (snd ?r2)"
  have f1: "tbl_orders (db (snd ?r1)) = tbl_orders (db w)"
    by (rule supabase_orders_frame) simp
  have f2: "tbl_orders (db (snd ?r2)) = tbl_orders (db (snd ?r1))"
    by (rule supabase_orders_frame) simp
  show ?thesis
  proof (cases "fst ?r1")
    case (Some e1)
    then show ?thesis
      using \<open>o_profiles (order sc) = Some pf\<close> f1 by (simp add: handleRefund_unfold)
  next
    case None
    note r1 = this
    show ?thesis
    proof (cases "fst ?r2")
      case (Some e2)
      then show ?thesis
        using \<open>o_profiles (order sc) = Some pf\<close> r1 f1 f2 by (simp add: handleRefund_unfold)
    next
      case None
      note r2 = this
      show ?thesis
      proof (cases "fst ?r3")
        case (Some e3)
        then have "db (snd ?r3) = db (snd ?r2)"
          by (rule supabase_error_db)
        then show ?thesis
          using \<open>o_profiles (order sc) = Some pf\<close> r1 r2 Some f1 f2
          by (simp add: handleRefund_unfold)
      next
        case None
        then show ?thesis
          using \<open>o_profiles (order sc) = Some pf\<close> r1 r2 assms
          by (simp add: handleRefund_unfold)
      qed
    qed
  qed
qed

lemma handleRefund_frame:
  "alerts (snd (handleRefund sc w)) = alerts w"
  "updating (snd (handleRefund sc w)) = updating w"
  "onOrderUpdate_calls (snd (handleRefund sc w)) = onOrderUpdate_calls w"
  "onClose_calls (snd (handleRefund sc w)) = onClose_calls w"
  by (simp_all add: handleRefund_unfold Let_def split: option.splits)

lemma handleStatusUpdate_unfold:
  "handleStatusUpdate sc newStatus w =
     (let r = (if newStatus = ''cancelled'' \<and> \<not> isCustomOrder (order sc)
                  \<and> o_payment_status (order sc) = Some ''paid''
               then handleRefund sc (w\<lparr>updating := True\<rparr>)
               else (Inr (), w\<lparr>updating := True\<rparr>))
      in case fst r of
           Inl e \<Rightarrow> status_update_failed (snd r)
         | Inr u \<Rightarrow>
             (let r2 = supabase
                     (if isCustomOrder (order sc) then UpdateCustomStatus (o_id (order sc)) newStatus
                      else UpdateOrderStatus (o_id (order sc)) newStatus) (snd r)
              in case fst r2 of
                   Some e \<Rightarrow> status_update_failed (snd r2)
                 | None \<Rightarrow>
                     (let w3 = snd (supabase
                               (InsertNotification (status_notification (order sc) newStatus))
                               (snd r2))
                      in (Alert_alert ''Success'' ''Order status updated successfully'' w3)
                           \<lparr>onOrderUpdate_calls := onOrderUpdate_calls w3 + 1,
                            onClose_calls := onClose_calls w3 + 1,
                            updating := False\<rparr>)))"
  by (simp add: handleStatusUpdate_def Let_def split: prod.splits sum.splits option.splits)

lemma handleRefund_ok:
  assumes "o_profiles (order sc) = Some pf" and "no_fault 3 w"
  shows "handleRefund sc w =
    (Inr (),
     w\<lparr>calls := calls w @
          [UpdateWalletBalance (o_user_id (order sc)) (pf_wallet_balance pf + o_total (order sc)),
           InsertTransaction (refund_transaction (order sc)),
           UpdatePaymentStatus (o_id (order sc)) ''refunded''],
       faults := drop 3 (faults w),
       db := snd (apply_call (UpdatePaymentStatus (o_id (order sc)) ''refunded'')
               (snd (apply_call (InsertTransaction (refund_transaction (order sc)))
                 (snd (apply_call
                   (UpdateWalletBalance (o_user_id (order sc))
                     (pf_wallet_balance pf + o_total (order sc))) (db w))))))\<rparr>)"
proof -
  from assms(2) have 1: "next_fault w = None"
    and 2: "next_fault (w\<lparr>faults := tl (faults w)\<rparr>) = None"
    and 3: "next_fault (w\<lparr>faults := tl (tl (faults w))\<rparr>) = None"
    by (simp_all add: numeral_3_eq_3 no_fault_Suc)
  have n2: "\<And>v. faults v = tl (faults w) \<Longrightarrow> next_fault v = None"
    using 2 by (simp add: next_fault_def)
  have n3: "\<And>v. faults v = tl (tl (faults w)) \<Longrightarrow> next_fault v = None"
    using 3 by (simp add: next_fault_def)
  show ?thesis
    using assms(1) 1
    by (simp add: handleRefund_def supabase_reached n2 n3 drop_Suc numeral_3_eq_3
        split: option.splits split del: if_split cong: if_cong) 
qed

lemma handleRefund_step1_fails:
  assumes "o_profiles (order sc) = Some pf" and "faults w = Some e # fs"
  shows "handleRefund sc w =
    (Inl e,
     w\<lparr>calls := calls w @
          [UpdateWalletBalance (o_user_id (order sc)) (pf_wallet_balance pf + o_total (order sc))],
       faults := fs\<rparr>)"
  using assms by (simp add: handleRefund_def supabase_fault)

lemma handleRefund_step2_fails:
  assumes "o_profiles (order sc) = Some pf" and "faults w = None # Some e # fs"
  shows "handleRefund sc w =
    (Inl e,
     w\<lparr>calls := calls w @
          [UpdateWalletBalance (o_user_id (order sc)) (pf_wallet_balance pf + o_total (order sc)),
           InsertTransaction (refund_transaction (order sc))],
       faults := fs,
       db := snd (apply_call
                   (UpdateWalletBalance (o_user_id (order sc))
                     (pf_wallet_balance pf + o_total (order sc))) (db w))\<rparr>)"
proof -
  have "next_fault w = None"
    using assms(2) by (simp add: next_fault_def)
  then show ?thesis
    using assms by (simp add: handleRefund_def supabase_reached supabase_fault)
qed

lemmas example_defs =
  example_scope_def example_order_def example_custom_order_def example_profile_def
  example_world_def example_store_def network_error_def example_convertToNGN_def
  example_parseFloat_def

lemmas handler_defs =
  handleRefund_def handleStatusUpdate_def handleSendInvoice_def supabase_def
  status_update_failed_def Alert_alert_def isCustomOrder_def refund_transaction_def
  status_notification_def invoice_of_def invoice_notification_def
  getActualPaymentCurrency_def unique_violation_def no_fault_def next_fault_def
  toUpperCase_def only_one_invoice_def

lemma handleRefund_step3_fails:
  assumes "o_profiles (order sc) = Some pf" and "faults w = None # None # Some e # fs"
  shows "handleRefund sc w =
    (Inl e,
     w\<lparr>calls := calls w @
          [UpdateWalletBalance (o_user_id (order sc)) (pf_wallet_balance pf + o_total (order sc)),
           InsertTransaction (refund_transaction (order sc)),
           UpdatePaymentStatus (o_id (order sc)) ''refunded''],
       faults := fs,
       db := snd (apply_call (InsertTransaction (refund_transaction (order sc)))
               (snd (apply_call
                   (UpdateWalletBalance (o_user_id (order sc))
                     (pf_wallet_balance pf + o_total (order sc))) (db w))))\<rparr>)"
proof -
  have 1: "next_fault w = None"
    using assms(2) by (simp add: next_fault_def)
  have 2: "\<And>v. faults v = tl (faults w) \<Longrightarrow> next_fault v = None"
    using assms(2) by (simp add: next_fault_def)
  show ?thesis
    using assms 1 by (simp add: handleRefund_def supabase_reached 2 supabase_fault)
qed

lemma handleStatusUpdate_refund_raises:
  assumes "o_items (order sc) \<noteq> None" and "o_payment_status (order sc) = Some ''paid''"
    and "handleRefund sc (w\<lparr>updating := True\<rparr>) = (Inl e, w1)"
  shows "handleStatusUpdate sc ''cancelled'' w = status_update_failed w1"
  using assms by (simp add: handleStatusUpdate_def isCustomOrder_def)

text \<open>
  Claim C1, as stated, fails: when the third request of the refund fails, the status
  write is not sent and the order's row is as it was, but the transition has been
  applied in part: the wallet has gone from 2000 to 17000 and the credit transaction of
  15000 is recorded, while the alert reports the failure.
\<close>

theorem refund_failure_leaves_wallet_credited:
  "o_items (order (example_scope True example_order)) \<noteq> None
   \<and> o_payment_status (order (example_scope True example_order)) = Some ''paid''
   \<and> fst (handleRefund (example_scope True example_order)
        ((example_world [None, None, Some network_error] [] [])\<lparr>updating := True\<rparr>))
       = Inl network_error
   \<and> alerts (handleStatusUpdate (example_scope True example_order) ''cancelled''
          (example_world [None, None, Some network_error] [] []))
       = [(''Error'', ''Failed to update order status'')]
   \<and> tbl_orders (db (handleStatusUpdate (example_scope True example_order) ''cancelled''
          (example_world [None, None, Some network_error] [] []))) ''0a1b2c3d-order''
       = Some \<lparr>or_payment_status = ''paid'', or_order_status = ''confirmed''\<rparr>
   \<and> tbl_profiles (db (example_world [None, None, Some network_error] [] [])) ''user-1''
       = Some 2000
   \<and> tbl_profiles (db (handleStatusUpdate (example_scope True example_order) ''cancelled''
          (example_world [None, None, Some network_error] [] []))) ''user-1'' = Some 17000
   \<and> tbl_transactions (db (example_world [None, None, Some network_error] [] [])) = []
   \<and> tbl_transactions (db (handleStatusUpdate (example_scope True example_order) ''cancelled''
          (example_world [None, None, Some network_error] [] []))) =
       [\<lparr>tr_user_id = ''user-1'', tr_type = credit, tr_amount = 15000,
         tr_description = ''Refund for cancelled order #0a1b2c3d'',
         tr_reference = ''0a1b2c3d-order'', tr_status = ''completed''\<rparr>]"
  by (simp add: example_defs handler_defs)

text \<open>
  Claim C1, amended. On a standard order whose payment status is paid, a status update
  to cancelled runs the refund procedure first: every request of the refund is sent
  before the status write. If the refund throws, the handler ends with the store as the
  refund left it: no status write and no notification are sent, the rows of the orders
  table are what they were, and the failure alert is shown. Nothing the refund did is
  undone: after a failure of its first request the store is untouched, after a failure
  of its second the wallet balance is written, and after a failure of its third the
  wallet balance is written and the credit transaction recorded. If the refund returns,
  the next request is the status write.
\<close>

theorem cancel_paid_refund_failure_effects:
  assumes "o_items (order sc) \<noteq> None" and "o_payment_status (order sc) = Some ''paid''"
  shows "(case handleRefund sc (w\<lparr>updating := True\<rparr>) of
      (Inl e, w1) \<Rightarrow>
         handleStatusUpdate sc ''cancelled'' w = status_update_failed w1
         \<and> calls (handleStatusUpdate sc ''cancelled'' w) = calls w1
         \<and> db (handleStatusUpdate sc ''cancelled'' w) = db w1
         \<and> (\<exists>cs. calls (handleStatusUpdate sc ''cancelled'' w) = calls w @ cs
                \<and> \<not> list_ex is_status_write cs)
         \<and> tbl_orders (db (handleStatusUpdate sc ''cancelled'' w)) = tbl_orders (db w)
         \<and> tbl_notifications (db (handleStatusUpdate sc ''cancelled'' w))
             = tbl_notifications (db w)
         \<and> alerts (handleStatusUpdate sc ''cancelled'' w)
             = alerts w @ [(''Error'', ''Failed to update order status'')]
    | (Inr u, w1) \<Rightarrow>
         (\<exists>cs rest. calls w1 = calls w @ cs \<and> \<not> list_ex is_status_write cs
            \<and> calls (handleStatusUpdate sc ''cancelled'' w)
                = calls w @ cs @ UpdateOrderStatus (o_id (order sc)) ''cancelled'' # rest))
    \<and> (\<forall>pf e fs. o_profiles (order sc) = Some pf \<longrightarrow>
          (faults w = Some e # fs \<longrightarrow>
             db (handleStatusUpdate sc ''cancelled'' w) = db w)
        \<and> (faults w = None # Some e # fs \<longrightarrow>
             db (handleStatusUpdate sc ''cancelled'' w) = wallet_written (order sc) pf (db w))
        \<and> (faults w = None # None # Some e # fs \<longrightarrow>
             db (handleStatusUpdate sc ''cancelled'' w) =
               (wallet_written (order sc) pf (db w))
                 \<lparr>tbl_transactions := tbl_transactions (db w) @ [refund_transaction (order sc)]\<rparr>))"
proof (rule conjI)
  show "case handleRefund sc (w\<lparr>updating := True\<rparr>) of
      (Inl e, w1) \<Rightarrow>
         handleStatusUpdate sc ''cancelled'' w = status_update_failed w1
         \<and> calls (handleStatusUpdate sc ''cancelled'' w) = calls w1
         \<and> db (handleStatusUpdate sc ''cancelled'' w) = db w1
         \<and> (\<exists>cs. calls (handleStatusUpdate sc ''cancelled'' w) = calls w @ cs
                \<and> \<not> list_ex is_status_write cs)
         \<and> tbl_orders (db (handleStatusUpdate sc ''cancelled'' w)) = tbl_orders (db w)
         \<and> tbl_notifications (db (handleStatusUpdate sc ''cancelled'' w))
             = tbl_notifications (db w)
         \<and> alerts (handleStatusUpdate sc ''cancelled'' w)
             = alerts w @ [(''Error'', ''Failed to update order status'')]
    | (Inr u, w1) \<Rightarrow>
         (\<exists>cs rest. calls w1 = calls w @ cs \<and> \<not> list_ex is_status_write cs
            \<and> calls (handleStatusUpdate sc ''cancelled'' w)
                = calls w @ cs @ UpdateOrderStatus (o_id (order sc)) ''cancelled'' # rest)"
  proof (cases "handleRefund sc (w\<lparr>updating := True\<rparr>)")
    case (Pair res w1)
    have w1: "w1 = snd (handleRefund sc (w\<lparr>updating := True\<rparr>))"
      and res: "res = fst (handleRefund sc (w\<lparr>updating := True\<rparr>))"
      by (simp_all add: Pair)
    obtain cs where cs: "calls w1 = calls w @ cs" "\<not> list_ex is_status_write cs"
      using handleRefund_calls [of sc "w\<lparr>updating := True\<rparr>"] unfolding w1 by auto
    have std: "\<not> isCustomOrder (order sc)"
      using assms(1) by (simp add: isCustomOrder_def)
    show ?thesis
    proof (cases res)
      case (Inl e)
      have run: "handleStatusUpdate sc ''cancelled'' w = status_update_failed w1"
        using assms Pair Inl by (simp add: handleStatusUpdate_refund_raises)
      have "tbl_orders (db w1) = tbl_orders (db w)"
        using handleRefund_raises_orders [of sc "w\<lparr>updating := True\<rparr>" e] Inl
        unfolding w1 res by simp
      moreover have "tbl_notifications (db w1) = tbl_notifications (db w)"
        unfolding w1 by (simp add: handleRefund_notifications)
      moreover have "alerts w1 = alerts w"
        unfolding w1 by (simp add: handleRefund_frame)
      ultimately show ?thesis
        using cs by (simp add: Pair Inl run status_update_failed_def Alert_alert_def)
    next
      case (Inr u)
      let ?c = "UpdateOrderStatus (o_id (order sc)) ''cancelled''"
      have "\<exists>rest. calls (handleStatusUpdate sc ''cancelled'' w) = calls w1 @ ?c # rest"
        using assms(2) std Pair Inr
        by (simp add: handleStatusUpdate_unfold Let_def status_update_failed_def Alert_alert_def
            split: option.splits)
      then show ?thesis
        using cs by (auto simp: Pair Inr)
    qed
  qed
next
  show "\<forall>pf e fs. o_profiles (order sc) = Some pf \<longrightarrow>
          (faults w = Some e # fs \<longrightarrow>
             db (handleStatusUpdate sc ''cancelled'' w) = db w)
        \<and> (faults w = None # Some e # fs \<longrightarrow>
             db (handleStatusUpdate sc ''cancelled'' w) = wallet_written (order sc) pf (db w))
        \<and> (faults w = None # None # Some e # fs \<longrightarrow>
             db (handleStatusUpdate sc ''cancelled'' w) =
               (wallet_written (order sc) pf (db w))
                 \<lparr>tbl_transactions := tbl_transactions (db w) @ [refund_transaction (order sc)]\<rparr>)"
  proof (intro allI impI conjI)
    fix pf e fs
    assume pf: "o_profiles (order sc) = Some pf"
    have wallet: "snd (apply_call (UpdateWalletBalance (o_user_id (order sc))
        (pf_wallet_balance pf + o_total (order sc))) (db w)) = wallet_written (order sc) pf (db w)"
      by (simp add: wallet_written_def)
    {
      assume f: "faults w = Some e # fs"
      then have "faults (w\<lparr>updating := True\<rparr>) = Some e # fs" by simp
      from handleRefund_step1_fails [OF pf this]
      show "db (handleStatusUpdate sc ''cancelled'' w) = db w"
        by (simp add: handleStatusUpdate_refund_raises [OF assms] status_update_failed_def
            Alert_alert_def)
    }
    {
      assume f: "faults w = None # Some e # fs"
      then have "faults (w\<lparr>updating := True\<rparr>) = None # Some e # fs" by simp
      from handleRefund_step2_fails [OF pf this]
      show "db (handleStatusUpdate sc ''cancelled'' w) = wallet_written (order sc) pf (db w)"
        by (simp add: handleStatusUpdate_refund_raises [OF assms] status_update_failed_def
            Alert_alert_def wallet del: apply_call.simps)
    }
    {
      assume f: "faults w = None # None # Some e # fs"
      then have "faults (w\<lparr>updating := True\<rparr>) = None # None # Some e # fs" by simp
      from handleRefund_step3_fails [OF pf this]
      show "db (handleStatusUpdate sc ''cancelled'' w) =
               (wallet_written (order sc) pf (db w))
                 \<lparr>tbl_transactions := tbl_transactions (db w) @ [refund_transaction (order sc)]\<rparr>"
        by (simp add: handleStatusUpdate_refund_raises [OF assms] status_update_failed_def
            Alert_alert_def wallet_written_def split: option.splits)
    }
  qed
qed

theorem cancel_paid_refund_failure_effects_witness:
  "o_items (order (example_scope True example_order)) \<noteq> None
   \<and> o_payment_status (order (example_scope True example_order)) = Some ''paid''
   \<and> o_profiles (order (example_scope True example_order)) = Some example_profile
   \<and> fst (handleRefund (example_scope True example_order)
        ((example_world [None, Some network_error] [] [])\<lparr>updating := True\<rparr>))
       = Inl network_error
   \<and> map is_status_write
        (calls (handleStatusUpdate (example_scope True example_order) ''cancelled''
          (example_world [None, Some network_error] [] [])))
       = [False, False]
   \<and> tbl_orders (db (handleStatusUpdate (example_scope True example_order) ''cancelled''
          (example_world [None, Some network_error] [] []))) ''0a1b2c3d-order''
       = Some \<lparr>or_payment_status = ''paid'', or_order_status = ''confirmed''\<rparr>
   \<and> tbl_profiles (db (handleStatusUpdate (example_scope True example_order) ''cancelled''
          (example_world [None, Some network_error] [] []))) ''user-1'' = Some 17000
   \<and> tbl_transactions (db (handleStatusUpdate (example_scope True example_order) ''cancelled''
          (example_world [None, Some network_error] [] []))) = []
   \<and> db (handleStatusUpdate (example_scope True example_order) ''cancelled''
          (example_world [Some network_error] [] [])) = db (example_world [] [] [])
   \<and> fst (handleRefund (example_scope True example_order)
        ((example_world [] [] [])\<lparr>updating := True\<rparr>)) = Inr ()
   \<and> map is_status_write
        (calls (handleStatusUpdate (example_scope True example_order) ''cancelled''
          (example_world [] [] [])))
       = [False, False, False, True, False]"
  using cancel_paid_refund_failure_effects
      [of "example_scope True example_order" "example_world [None, Some network_error] [] []"]
    cancel_paid_refund_failure_effects
      [of "example_scope True example_order" "example_world [Some network_error] [] []"]
    cancel_paid_refund_failure_effects
      [of "example_scope True example_order" "example_world [] [] []"]
  by (simp add: example_defs handler_defs wallet_written_def)

text \<open>
  Claim C3, as stated, fails: for a paid order of total 15000 whose fetched copy carries
  no profile the refund procedure returns without sending any request; the wallet stays
  at 2000, no transaction is recorded and the payment status stays paid.
\<close>

theorem refund_without_profile_no_step:
  "o_payment_status (example_order\<lparr>o_profiles := None\<rparr>) = Some ''paid''
   \<and> o_total (example_order\<lparr>o_profiles := None\<rparr>) = 15000
   \<and> fst (handleRefund (example_scope True (example_order\<lparr>o_profiles := None\<rparr>))
        (example_world [] [] [])) = Inr ()
   \<and> calls (snd (handleRefund (example_scope True (example_order\<lparr>o_profiles := None\<rparr>))
        (example_world [] [] []))) = []
   \<and> tbl_profiles (db (snd (handleRefund
        (example_scope True (example_order\<lparr>o_profiles := None\<rparr>))
        (example_world [] [] [])))) ''user-1'' = Some 2000
   \<and> tbl_transactions (db (snd (handleRefund
        (example_scope True (example_order\<lparr>o_profiles := None\<rparr>))
        (example_world [] [] [])))) = []
   \<and> map_option or_payment_status (tbl_orders (db (snd (handleRefund
        (example_scope True (example_order\<lparr>o_profiles := None\<rparr>))
        (example_world [] [] [])))) ''0a1b2c3d-order'') = Some ''paid''"
  by (simp add: example_defs handler_defs)

text \<open>
  Claim C3, amended. When the order carries its fetched profile, the refund procedure
  sends exactly three requests in this order: (1) write the owning profile's wallet
  balance as the fetched balance plus the order total, which raises the stored balance
  by the total when the fetched balance is the stored one, (2) insert one completed
  credit transaction of the order total with the order id as reference, (3) set the
  order's payment status to refunded. If request 1 fails the procedure throws with the
  store untouched and requests 2 and 3 unsent; if request 2 fails it throws with no
  transaction recorded and the payment status unwritten.
\<close>

theorem refund_three_steps_with_profile:
  assumes "o_profiles (order sc) = Some pf"
  shows
    "(no_fault 3 w \<longrightarrow>
        fst (handleRefund sc w) = Inr ()
        \<and> calls (snd (handleRefund sc w)) = calls w @
            [UpdateWalletBalance (o_user_id (order sc))
               (pf_wallet_balance pf + o_total (order sc)),
             InsertTransaction
               \<lparr>tr_user_id = o_user_id (order sc), tr_type = credit,
                tr_amount = o_total (order sc),
                tr_description = ''Refund for cancelled order #'' @ take 8 (o_id (order sc)),
                tr_reference = o_id (order sc), tr_status = ''completed''\<rparr>,
             UpdatePaymentStatus (o_id (order sc)) ''refunded'']
        \<and> (tbl_profiles (db w) (o_user_id (order sc)) = Some (pf_wallet_balance pf) \<longrightarrow>
             tbl_profiles (db (snd (handleRefund sc w))) (o_user_id (order sc))
               = Some (pf_wallet_balance pf + o_total (order sc)))
        \<and> tbl_transactions (db (snd (handleRefund sc w))) =
             tbl_transactions (db w) @ [refund_transaction (order sc)]
        \<and> (\<forall>r. tbl_orders (db w) (o_id (order sc)) = Some r \<longrightarrow>
             tbl_orders (db (snd (handleRefund sc w))) (o_id (order sc))
               = Some (r\<lparr>or_payment_status := ''refunded''\<rparr>)))
     \<and> (\<forall>e fs. faults w = Some e # fs \<longrightarrow>
          fst (handleRefund sc w) = Inl e
          \<and> calls (snd (handleRefund sc w)) = calls w @
              [UpdateWalletBalance (o_user_id (order sc))
                 (pf_wallet_balance pf + o_total (order sc))]
          \<and> db (snd (handleRefund sc w)) = db w)
     \<and> (\<forall>e fs. faults w = None # Some e # fs \<longrightarrow>
          fst (handleRefund sc w) = Inl e
          \<and> calls (snd (handleRefund sc w)) = calls w @
              [UpdateWalletBalance (o_user_id (order sc))
                 (pf_wallet_balance pf + o_total (order sc)),
               InsertTransaction (refund_transaction (order sc))]
          \<and> tbl_transactions (db (snd (handleRefund sc w))) = tbl_transactions (db w)
          \<and> tbl_orders (db (snd (handleRefund sc w))) = tbl_orders (db w))"
proof (intro conjI impI allI)
  assume nf: "no_fault 3 w"
  note ok = handleRefund_ok [OF assms nf]
  show "fst (handleRefund sc w) = Inr ()"
    by (simp add: ok)
  show "calls (snd (handleRefund sc w)) = calls w @
            [UpdateWalletBalance (o_user_id (order sc))
               (pf_wallet_balance pf + o_total (order sc)),
             InsertTransaction
               \<lparr>tr_user_id = o_user_id (order sc), tr_type = credit,
                tr_amount = o_total (order sc),
                tr_description = ''Refund for cancelled order #'' @ take 8 (o_id (order sc)),
                tr_reference = o_id (order sc), tr_status = ''completed''\<rparr>,
             UpdatePaymentStatus (o_id (order sc)) ''refunded'']"
    by (simp add: ok refund_transaction_def)
  show "tbl_transactions (db (snd (handleRefund sc w))) =
             tbl_transactions (db w) @ [refund_transaction (order sc)]"
    by (simp add: ok split: option.splits)
  show "tbl_profiles (db (snd (handleRefund sc w))) (o_user_id (order sc))
               = Some (pf_wallet_balance pf + o_total (order sc))"
    if "tbl_profiles (db w) (o_user_id (order sc)) = Some (pf_wallet_balance pf)"
    using that by (simp add: ok split: option.splits)
  show "tbl_orders (db (snd (handleRefund sc w))) (o_id (order sc))
               = Some (r\<lparr>or_payment_status := ''refunded''\<rparr>)"
    if "tbl_orders (db w) (o_id (order sc)) = Some r" for r
    using that by (simp add: ok split: option.splits)
next
  fix e fs assume f: "faults w = Some e # fs"
  note r = handleRefund_step1_fails [OF assms f]
  show "fst (handleRefund sc w) = Inl e"
    "calls (snd (handleRefund sc w)) = calls w @
              [UpdateWalletBalance (o_user_id (order sc))
                 (pf_wallet_balance pf + o_total (order sc))]"
    "db (snd (handleRefund sc w)) = db w"
    by (simp_all add: r)
next
  fix e fs assume f: "faults w = None # Some e # fs"
  note r = handleRefund_step2_fails [OF assms f]
  show "fst (handleRefund sc w) = Inl e"
    "calls (snd (handleRefund sc w)) = calls w @
              [UpdateWalletBalance (o_user_id (order sc))
                 (pf_wallet_balance pf + o_total (order sc)),
               InsertTransaction (refund_transaction (order sc))]"
    "tbl_transactions (db (snd (handleRefund sc w))) = tbl_transactions (db w)"
    "tbl_orders (db (snd (handleRefund sc w))) = tbl_orders (db w)"
    by (simp_all add: r split: option.splits)
qed

theorem refund_three_steps_with_profile_witness:
  "o_profiles (order (example_scope True example_order)) = Some example_profile
   \<and> no_fault 3 (example_world [] [] [])
   \<and> o_total (order (example_scope True example_order)) = 15000
   \<and> tbl_profiles (db (example_world [] [] [])) ''user-1'' = Some 2000
   \<and> tbl_profiles (db (snd (handleRefund (example_scope True example_order)
        (example_world [] [] [])))) ''user-1'' = Some 17000
   \<and> tbl_transactions (db (snd (handleRefund (example_scope True example_order)
        (example_world [] [] [])))) =
       [\<lparr>tr_user_id = ''user-1'', tr_type = credit, tr_amount = 15000,
         tr_description = ''Refund for cancelled order #0a1b2c3d'',
         tr_reference = ''0a1b2c3d-order'', tr_status = ''completed''\<rparr>]
   \<and> tbl_orders (db (snd (handleRefund (example_scope True example_order)
        (example_world [] [] [])))) ''0a1b2c3d-order''
       = Some \<lparr>or_payment_status = ''refunded'', or_order_status = ''confirmed''\<rparr>
   \<and> fst (handleRefund (example_scope True example_order)
        (example_world [Some network_error] [] [])) = Inl network_error
   \<and> fst (handleRefund (example_scope True example_order)
        (example_world [None, Some network_error] [] [])) = Inl network_error"
  using refund_three_steps_with_profile
      [of "example_scope True example_order" example_profile "example_world [] [] []"]
    refund_three_steps_with_profile
      [of "example_scope True example_order" example_profile
        "example_world [Some network_error] [] []"]
    refund_three_steps_with_profile
      [of "example_scope True example_order" example_profile
        "example_world [None, Some network_error] [] []"]
  by (simp add: example_defs handler_defs)

lemma supabase_notification_frame:
  "tbl_orders (db (snd (supabase (InsertNotification n) w))) = tbl_orders (db w)"
  "tbl_profiles (db (snd (supabase (InsertNotification n) w))) = tbl_profiles (db w)"
  "tbl_transactions (db (snd (supabase (InsertNotification n) w))) = tbl_transactions (db w)"
  "tbl_invoices (db (snd (supabase (InsertNotification n) w))) = tbl_invoices (db w)"
  "tbl_custom_requests (db (snd (supabase (InsertNotification n) w))) = tbl_custom_requests (db w)"
  by (simp_all add: supabase_db)

text \<open>
  Claim C9. For a paid standard order whose fetched copy carries no profile, the refund
  procedure returns at once without throwing and changes nothing; a status update to
  cancelled whose status write reaches the store then sets the order status to
  cancelled and sends the notification, while the profiles table (the wallet) and the
  transactions table stay as they were and the payment status stays paid.
\<close>

theorem cancel_without_profile_no_refund:
  assumes "o_items (order sc) \<noteq> None"
    and "o_payment_status (order sc) = Some ''paid''"
    and "o_profiles (order sc) = None"
    and "tbl_orders (db w) (o_id (order sc)) = Some r"
    and "or_payment_status r = ''paid''"
    and "next_fault w = None"
  shows "handleRefund sc w = (Inr (), w)
    \<and> tbl_orders (db (handleStatusUpdate sc ''cancelled'' w)) (o_id (order sc))
        = Some \<lparr>or_payment_status = ''paid'', or_order_status = ''cancelled''\<rparr>
    \<and> tbl_profiles (db (handleStatusUpdate sc ''cancelled'' w)) = tbl_profiles (db w)
    \<and> tbl_transactions (db (handleStatusUpdate sc ''cancelled'' w)) = tbl_transactions (db w)
    \<and> calls (handleStatusUpdate sc ''cancelled'' w) = calls w @
        [UpdateOrderStatus (o_id (order sc)) ''cancelled'',
         InsertNotification (status_notification (order sc) ''cancelled'')]
    \<and> alerts (handleStatusUpdate sc ''cancelled'' w)
        = alerts w @ [(''Success'', ''Order status updated successfully'')]"
proof -
  have std: "\<not> isCustomOrder (order sc)"
    using assms(1) by (simp add: isCustomOrder_def)
  have refund: "handleRefund sc v = (Inr (), v)" for v
    using assms(3) by (simp add: handleRefund_def)
  have nf: "next_fault (w\<lparr>updating := True\<rparr>) = None"
    using assms(6) by (simp add: next_fault_def)
  have r: "r = \<lparr>or_payment_status = ''paid'', or_order_status = or_order_status r\<rparr>"
    using assms(5) by (cases r) simp
  have "r\<lparr>or_order_status := ''cancelled''\<rparr>
      = \<lparr>or_payment_status = ''paid'', or_order_status = ''cancelled''\<rparr>"
    by (subst r) simp
  then show ?thesis
    using assms(2,4) std
    by (simp add: refund handleStatusUpdate_unfold Let_def supabase_reached [OF nf]
        supabase_notification_frame Alert_alert_def)
qed

theorem cancel_without_profile_no_refund_witness:
  "o_items (order (example_scope True (example_order\<lparr>o_profiles := None\<rparr>))) \<noteq> None
   \<and> o_payment_status (order (example_scope True (example_order\<lparr>o_profiles := None\<rparr>)))
       = Some ''paid''
   \<and> o_profiles (order (example_scope True (example_order\<lparr>o_profiles := None\<rparr>))) = None
   \<and> next_fault (example_world [] [] []) = None
   \<and> tbl_orders (db (example_world [] [] [])) ''0a1b2c3d-order''
       = Some \<lparr>or_payment_status = ''paid'', or_order_status = ''confirmed''\<rparr>
   \<and> tbl_orders (db (handleStatusUpdate
         (example_scope True (example_order\<lparr>o_profiles := None\<rparr>)) ''cancelled''
         (example_world [] [] []))) ''0a1b2c3d-order''
       = Some \<lparr>or_payment_status = ''paid'', or_order_status = ''cancelled''\<rparr>
   \<and> tbl_profiles (db (handleStatusUpdate
         (example_scope True (example_order\<lparr>o_profiles := None\<rparr>)) ''cancelled''
         (example_world [] [] []))) ''user-1'' = Some 2000
   \<and> tbl_transactions (db (handleStatusUpdate
         (example_scope True (example_order\<lparr>o_profiles := None\<rparr>)) ''cancelled''
         (example_world [] [] []))) = []"
  using cancel_without_profile_no_refund
      [of "example_scope True (example_order\<lparr>o_profiles := None\<rparr>)" "example_world [] [] []"
        "\<lparr>or_payment_status = ''paid'', or_order_status = ''confirmed''\<rparr>"]
  by (simp add: example_defs handler_defs)

subsection \<open>Order details: sending an invoice\<close>












subsection \<open>Order details: who reaches the handlers\<close>

lemma non_admin_interact: "\<not> isAdmin sc \<Longrightarrow> interact sc a w = w"
  by (cases a)
    (simp_all add: status_option_enabled_def status_section_rendered_def canSendInvoice_def
      invoice_modal_shown_def)

lemma non_admin_interactions: "\<not> isAdmin sc \<Longrightarrow> interactions sc as w = w"
  by (induction as) (simp_all add: non_admin_interact)

text \<open>
  Claim C4. For a non-admin actor the status update and the sending of an invoice are
  refused before anything is written: the role is checked where the modal is rendered,
  so no status button is enabled, \<^verbatim>\<open>canSendInvoice()\<close> is false and the invoice form is not
  rendered; a press meant for either operation, and any sequence of interactions with
  the modal, sends no request and leaves every record and the whole state as it was.
\<close>

theorem non_admin_reaches_no_handler:
  assumes "\<not> isAdmin sc"
  shows "interact sc (PressStatusOption st) w = w
     \<and> interact sc PressInvoiceModalSend w = w
     \<and> interactions sc as w = w
     \<and> db (interactions sc as w) = db w
     \<and> calls (interactions sc as w) = calls w
     \<and> \<not> status_option_enabled sc w st
     \<and> \<not> canSendInvoice sc
     \<and> \<not> invoice_modal_shown sc w"
  using assms
  by (simp add: non_admin_interactions non_admin_interact status_option_enabled_def
      status_section_rendered_def canSendInvoice_def invoice_modal_shown_def)

theorem non_admin_reaches_no_handler_witness:
  "\<not> isAdmin (example_scope False example_order)
   \<and> interactions (example_scope False example_order)
        [PressStatusOption ''cancelled'', PressSendInvoiceButton, ChangeInvoiceAmount ''50000'',
         ChangeInvoiceDescription ''Quote'', PressInvoiceModalSend]
        (example_world [] [] []) = example_world [] [] []
   \<and> calls (interactions (example_scope True example_order)
        [PressStatusOption ''shipped''] (example_world [] [] []))
       = [UpdateOrderStatus ''0a1b2c3d-order'' ''shipped'',
          InsertNotification (status_notification example_order ''shipped'')]
   \<and> map is_status_write (calls (interactions (example_scope True example_custom_order)
        [PressSendInvoiceButton, ChangeInvoiceAmount ''50000'',
         ChangeInvoiceDescription ''Quote'', PressInvoiceModalSend] (example_world [] [] [])))
       = [False, False, False]"
  using non_admin_reaches_no_handler
      [of "example_scope False example_order" "''cancelled''" "example_world [] [] []"
        "[PressStatusOption ''cancelled'', PressSendInvoiceButton, ChangeInvoiceAmount ''50000'',
         ChangeInvoiceDescription ''Quote'', PressInvoiceModalSend]"]
  by (simp add: example_defs handler_defs status_option_enabled_def status_section_rendered_def
      canSendInvoice_def invoice_modal_shown_def statusOptions_def customStatusOptions_def
      currentStatus_def)

end
